theory Spec2Isabelle
  imports Main "HOL-Library.Word"
begin

section \<open>Data model (assets/models.py)\<close>

text \<open>
  Users are identified by their primary key. A \<open>DecimalField\<close> is a fixed-point number
  and is kept as the integer count of its smallest unit (\<open>value\<close>: hundredths,
  \<open>latitude\<close>/\<open>longitude\<close>: units of 1e-7). A \<open>DateField\<close> is the day's ordinal.
  Timestamps (\<open>created_at\<close>, \<open>uploaded_at\<close>, \<open>timestamp\<close>) are left out; a table is the
  list of its rows in insertion order.
\<close>

type_synonym bytes = "8 word list"

record Asset =
  asset_pk :: nat
  owner :: nat
  name :: string
  category :: string
  asset_value :: int
  start_date :: int
  end_date :: "int option"
  latitude :: "int option"
  longitude :: "int option"
  other_fields :: "(string \<times> string) list"

text \<open>\<open>other_fields\<close> holds the remaining optional columns (description, area, units,
  premium, ...), which no handler reads; they are carried from the form to the row.\<close>

definition CATEGORY_CHOICES :: "(string \<times> string) list" where
  "CATEGORY_CHOICES =
    [(''mutual_funds'', ''Mutual Funds''),
     (''stocks'', ''Stocks''),
     (''lands'', ''Lands''),
     (''flats'', ''Flats''),
     (''fixed_deposit'', ''Fixed Deposit''),
     (''medical_insurance'', ''Medical Insurance''),
     (''life_insurance'', ''Life Insurance''),
     (''gold'', ''Gold'')]"

record AssetDocument =
  doc_pk :: nat
  asset :: nat
  file_data :: "bytes option"
  file_name :: "string option"
  file_type :: "string option"
  file_size :: "nat option"
  doc_name :: string

record ActivityLog =
  user :: "nat option"
  action :: string
  asset_name :: string
  asset_category :: string
  details :: "string option"
  ip_address :: "string option"

text \<open>The database: the three tables and the two primary-key sequences.\<close>

record database =
  assets :: "Asset list"
  documents :: "AssetDocument list"
  activity_logs :: "ActivityLog list"
  next_asset_pk :: nat
  next_doc_pk :: nat

definition empty_db :: database where
  "empty_db = \<lparr>assets = [], documents = [], activity_logs = [],
               next_asset_pk = 1, next_doc_pk = 1\<rparr>"

text \<open>What the database itself guarantees: primary keys are unique and were drawn from
  the sequence, and a document's foreign key names an existing asset.\<close>

definition wf_db :: "database \<Rightarrow> bool" where
  "wf_db db =
    (distinct (map asset_pk (assets db)) \<and>
     list_all (\<lambda>a. asset_pk a < next_asset_pk db) (assets db) \<and>
     distinct (map doc_pk (documents db)) \<and>
     list_all (\<lambda>d. doc_pk d < next_doc_pk db) (documents db) \<and>
     list_all (\<lambda>d. asset d \<in> set (map asset_pk (assets db))) (documents db))"

subsection \<open>Python library functions the models use\<close>

text \<open>\<open>str.rfind\<close> for a single character: the last index, or -1.\<close>

definition rfind :: "char \<Rightarrow> string \<Rightarrow> int" where
  "rfind c p =
    (case find (\<lambda>i. p ! i = c) (rev [0..<length p]) of
       None \<Rightarrow> - 1
     | Some i \<Rightarrow> int i)"

text \<open>\<open>os.path.splitext\<close> (posixpath): the extension starts at the last dot of the last
  path component, unless only dots precede it there.\<close>

definition splitext :: "string \<Rightarrow> string \<times> string" where
  "splitext p =
    (let sepIndex = rfind (CHR ''/'') p;
         dotIndex = rfind (CHR ''.'') p
     in if dotIndex > sepIndex \<and>
           list_ex (\<lambda>i. p ! i \<noteq> CHR ''.'') [nat (sepIndex + 1)..<nat dotIndex]
        then (take (nat dotIndex) p, drop (nat dotIndex) p)
        else (p, []))"

text \<open>\<open>str.lower\<close>, on ASCII letters.\<close>

definition lower_char :: "char \<Rightarrow> char" where
  "lower_char c =
    (let n = (of_char c :: nat)
     in if 65 \<le> n \<and> n \<le> 90 then char_of (n + 32) else c)"

definition lower :: "string \<Rightarrow> string" where
  "lower s = map lower_char s"

text \<open>An uploaded file: its name and its byte stream (\<open>read()\<close> returns all of it,
  \<open>size\<close> is its length).\<close>

record UploadedFile =
  upload_name :: string
  upload_content :: bytes

definition upload_size :: "UploadedFile \<Rightarrow> nat" where
  "upload_size f = length (upload_content f)"

text \<open>Functions of the Python library and the project settings that the source calls and
  that are not part of the repository's files: \<open>mimetypes.guess_type\<close> (its first
  component), \<open>str\<close> of a \<open>Decimal\<close>, and the two upload settings.\<close>

record env =
  guess_type :: "string \<Rightarrow> string option"
  str_decimal :: "int \<Rightarrow> string"
  ALLOWED_DOCUMENT_EXTENSIONS :: "string list"
  MAX_DOCUMENT_SIZE :: nat

subsection \<open>AssetDocument\<close>

text \<open>\<open>AssetDocument.save\<close>: the display name defaults to the file name without its
  extension; the row gets the next primary key.\<close>

definition AssetDocument_save :: "database \<Rightarrow> AssetDocument \<Rightarrow> AssetDocument \<times> database" where
  "AssetDocument_save db d =
    (let d1 = (if doc_name d = [] \<and> file_name d \<noteq> None \<and> file_name d \<noteq> Some []
               then d\<lparr>doc_name := fst (splitext (case file_name d of Some n \<Rightarrow> n | None \<Rightarrow> []))\<rparr>
               else d);
         d2 = d1\<lparr>doc_pk := next_doc_pk db\<rparr>
     in (d2, db\<lparr>documents := documents db @ [d2], next_doc_pk := Suc (next_doc_pk db)\<rparr>))"

definition create_from_file :: "env \<Rightarrow> database \<Rightarrow> Asset \<Rightarrow> UploadedFile \<Rightarrow> AssetDocument \<times> database" where
  "create_from_file e db a uploaded_file =
    (let mime_type = (case guess_type e (upload_name uploaded_file) of
                        None \<Rightarrow> ''application/octet-stream''
                      | Some m \<Rightarrow> if m = [] then ''application/octet-stream'' else m);
         file_content = upload_content uploaded_file
     in AssetDocument_save db
          \<lparr>doc_pk = 0,
           asset = asset_pk a,
           file_data = Some file_content,
           file_name = Some (upload_name uploaded_file),
           file_type = Some mime_type,
           file_size = Some (length file_content),
           doc_name = []\<rparr>)"

subsection \<open>ActivityLog\<close>

definition log_action ::
  "database \<Rightarrow> nat \<Rightarrow> string \<Rightarrow> Asset \<Rightarrow> string option \<Rightarrow> string option \<Rightarrow> database" where
  "log_action db u act a dets ip =
    db\<lparr>activity_logs := activity_logs db @
       [\<lparr>user = Some u, action = act, asset_name = name a, asset_category = category a,
         details = dets, ip_address = ip\<rparr>]\<rparr>"

section \<open>Forms (assets/forms.py)\<close>

text \<open>
  A bound form field after Django's own field cleaning: the submitted text did not parse
  or validate (\<open>Invalid\<close>), nothing was submitted (\<open>Empty\<close>), or the cleaned value.
  \<open>cleaned_data.get\<close> finds only cleaned values.
\<close>

datatype 'a field_input = Invalid | Empty | Value 'a

fun cleaned_get :: "'a field_input \<Rightarrow> 'a option" where
  "cleaned_get (Value v) = Some v"
| "cleaned_get Invalid = None"
| "cleaned_get Empty = None"

text \<open>Whether cleaning the field reports an error: always for an invalid input, for a
  missing one when the field is required.\<close>

fun field_error :: "bool \<Rightarrow> 'a field_input \<Rightarrow> bool" where
  "field_error required Invalid = True"
| "field_error required Empty = required"
| "field_error required (Value v) = False"

record AssetForm =
  form_name :: "string field_input"
  form_category :: "string field_input"
  form_value :: "int field_input"
  form_start_date :: "int field_input"
  form_end_date :: "int field_input"
  form_latitude :: "int field_input"
  form_longitude :: "int field_input"
  form_other_fields :: "(string \<times> string) list"

text \<open>Python's \<open>not x\<close> for an optional \<open>Decimal\<close>: \<open>None\<close> and zero are false values.\<close>

fun py_not :: "int option \<Rightarrow> bool" where
  "py_not None = True"
| "py_not (Some d) = (d = 0)"

text \<open>\<open>AssetForm.clean\<close>: \<open>Inl\<close> is the raised \<open>ValidationError\<close>.\<close>

definition AssetForm_clean :: "AssetForm \<Rightarrow> string + AssetForm" where
  "AssetForm_clean cleaned_data =
    (let category = cleaned_get (form_category cleaned_data);
         start_date = cleaned_get (form_start_date cleaned_data);
         end_date = cleaned_get (form_end_date cleaned_data)
     in if (case start_date of None \<Rightarrow> False
            | Some s \<Rightarrow> (case end_date of None \<Rightarrow> False | Some e \<Rightarrow> e < s))
        then Inl ''End date cannot be before start date.''
        else if category = Some ''lands'' \<and>
                (py_not (cleaned_get (form_latitude cleaned_data)) \<or>
                 py_not (cleaned_get (form_longitude cleaned_data)))
        then Inl ''Latitude and Longitude are required for land assets.''
        else Inr cleaned_data)"

text \<open>The form's errors: the fields that failed (name, category, value and start date are
  required by the model; \<open>_setup_category_fields\<close> makes the coordinates required when the
  form's current category is lands), then the error of \<open>clean\<close>.\<close>

definition AssetForm_errors :: "string option \<Rightarrow> AssetForm \<Rightarrow> string list" where
  "AssetForm_errors current_category f =
    (if field_error True (form_name f) then [''name''] else []) @
    (if field_error True (form_category f) then [''category''] else []) @
    (if field_error True (form_value f) then [''value''] else []) @
    (if field_error True (form_start_date f) then [''start_date''] else []) @
    (if field_error False (form_end_date f) then [''end_date''] else []) @
    (if field_error (current_category = Some ''lands'') (form_latitude f)
     then [''latitude''] else []) @
    (if field_error (current_category = Some ''lands'') (form_longitude f)
     then [''longitude''] else []) @
    (case AssetForm_clean f of Inl msg \<Rightarrow> [msg] | Inr _ \<Rightarrow> [])"

definition is_valid :: "string option \<Rightarrow> AssetForm \<Rightarrow> bool" where
  "is_valid current_category f = (AssetForm_errors current_category f = [])"

text \<open>\<open>form.save()\<close> builds the row from the cleaned data; primary key and owner are not
  form fields. \<open>None\<close> stands for a form that is not valid, which has no row to save.\<close>

definition form_save :: "nat \<Rightarrow> nat \<Rightarrow> AssetForm \<Rightarrow> Asset option" where
  "form_save pk u f =
    (case form_name f of Value n \<Rightarrow>
      (case form_category f of Value c \<Rightarrow>
        (case form_value f of Value v \<Rightarrow>
          (case form_start_date f of Value s \<Rightarrow>
            Some \<lparr>asset_pk = pk, owner = u, name = n, category = c, asset_value = v,
                  start_date = s,
                  end_date = cleaned_get (form_end_date f),
                  latitude = cleaned_get (form_latitude f),
                  longitude = cleaned_get (form_longitude f),
                  other_fields = form_other_fields f\<rparr>
          | _ \<Rightarrow> None)
        | _ \<Rightarrow> None)
      | _ \<Rightarrow> None)
    | _ \<Rightarrow> None)"

text \<open>\<open>AssetDocumentForm.clean_files\<close>; a file with an empty name is false and skipped.\<close>

datatype upload_error = FileTypeNotAllowed string | FileExceedsMaximumSize string

fun clean_files :: "env \<Rightarrow> UploadedFile list \<Rightarrow> upload_error option" where
  "clean_files e [] = None"
| "clean_files e (f # files) =
    (if upload_name f \<noteq> [] then
       (let ext = lower (snd (splitext (upload_name f)))
        in if ext \<notin> set (ALLOWED_DOCUMENT_EXTENSIONS e)
           then Some (FileTypeNotAllowed ext)
           else if upload_size f > MAX_DOCUMENT_SIZE e
           then Some (FileExceedsMaximumSize (upload_name f))
           else clean_files e files)
     else clean_files e files)"

section \<open>Views (assets/views.py)\<close>

record request =
  req_user :: "nat option"
  http_x_forwarded_for :: "string option"
  remote_addr :: "string option"
  GET_category :: "string option"
  FILES :: "UploadedFile list"

datatype url = Url_login | Url_asset_list | Url_asset_detail nat

datatype page =
    asset_detail_html Asset "AssetDocument list"
  | asset_form_html "Asset option" "string list"
  | asset_confirm_delete_html Asset

text \<open>\<open>HttpResponse\<close>: content, content type, Content-Disposition, Content-Length.
  \<open>Http404\<close> is the not-found response of \<open>get_object\<close> and \<open>get_object_or_404\<close>;
  \<open>HttpResponseServerError\<close> stands for an uncaught exception.\<close>

datatype response =
    HttpResponseForbidden string
  | Http404
  | HttpResponseServerError
  | HttpResponseRedirect url
  | HttpResponse "bytes option" "string option" string "nat option"
  | JsonResponse "string list" "int list" "string list"
  | Render page

definition get_client_ip :: "request \<Rightarrow> string option" where
  "get_client_ip r =
    (case http_x_forwarded_for r of
       None \<Rightarrow> remote_addr r
     | Some x \<Rightarrow> if x \<noteq> [] then Some (takeWhile (\<lambda>c. c \<noteq> CHR '','') x) else remote_addr r)"

text \<open>\<open>Asset.objects.filter(owner=user)\<close>, the queryset of every asset view.\<close>

definition owned_by :: "database \<Rightarrow> nat \<Rightarrow> Asset list" where
  "owned_by db u = filter (\<lambda>a. owner a = u) (assets db)"

text \<open>\<open>get_object\<close>: the row of the view's queryset with this primary key.\<close>

definition get_object :: "Asset list \<Rightarrow> nat \<Rightarrow> Asset option" where
  "get_object queryset pk = find (\<lambda>a. asset_pk a = pk) queryset"

text \<open>\<open>asset.documents.all()\<close>, newest first.\<close>

definition asset_documents :: "database \<Rightarrow> Asset \<Rightarrow> AssetDocument list" where
  "asset_documents db a = rev (filter (\<lambda>d. asset d = asset_pk a) (documents db))"

text \<open>Python's formatting of an optional string in an f-string.\<close>

fun str_opt :: "string option \<Rightarrow> string" where
  "str_opt None = ''None''"
| "str_opt (Some s) = s"

subsection \<open>Asset views\<close>

text \<open>Every view requires a login: without a user the request is redirected.\<close>

definition AssetDetailView_get :: "database \<Rightarrow> request \<Rightarrow> nat \<Rightarrow> response \<times> database" where
  "AssetDetailView_get db req pk =
    (case req_user req of
       None \<Rightarrow> (HttpResponseRedirect Url_login, db)
     | Some u \<Rightarrow>
        (case get_object (owned_by db u) pk of
           None \<Rightarrow> (Http404, db)
         | Some obj \<Rightarrow>
            (Render (asset_detail_html obj (asset_documents db obj)),
             log_action db u ''view'' obj None (get_client_ip req))))"

text \<open>Saving a new row draws its primary key from the sequence.\<close>

definition Asset_insert :: "database \<Rightarrow> Asset \<Rightarrow> Asset \<times> database" where
  "Asset_insert db a =
    (let obj = a\<lparr>asset_pk := next_asset_pk db\<rparr>
     in (obj, db\<lparr>assets := assets db @ [obj], next_asset_pk := Suc (next_asset_pk db)\<rparr>))"

text \<open>Saving an existing row replaces the row with its primary key.\<close>

definition Asset_update :: "database \<Rightarrow> Asset \<Rightarrow> database" where
  "Asset_update db obj =
    db\<lparr>assets := map (\<lambda>a. if asset_pk a = asset_pk obj then obj else a) (assets db)\<rparr>"

text \<open>Deleting an asset deletes its documents too (\<open>on_delete=CASCADE\<close>).\<close>

definition Asset_delete :: "database \<Rightarrow> Asset \<Rightarrow> database" where
  "Asset_delete db obj =
    db\<lparr>assets := filter (\<lambda>a. asset_pk a \<noteq> asset_pk obj) (assets db),
       documents := filter (\<lambda>d. asset d \<noteq> asset_pk obj) (documents db)\<rparr>"

text \<open>The upload loop of \<open>AssetCreateView.form_valid\<close>.\<close>

fun create_documents :: "env \<Rightarrow> database \<Rightarrow> Asset \<Rightarrow> UploadedFile list \<Rightarrow> database" where
  "create_documents e db obj [] = db"
| "create_documents e db obj (f # files) =
    create_documents e (snd (create_from_file e db obj f)) obj files"

definition AssetCreateView_form_valid ::
  "env \<Rightarrow> database \<Rightarrow> request \<Rightarrow> nat \<Rightarrow> AssetForm \<Rightarrow> response \<times> database" where
  "AssetCreateView_form_valid e db req u form =
    (case form_save 0 u form of
       None \<Rightarrow> (HttpResponseServerError, db)
     | Some instance \<Rightarrow>
        (let (obj, db1) = Asset_insert db instance;
             db2 = create_documents e db1 obj (FILES req);
             db3 = log_action db2 u ''create'' obj
                     (Some (''Created asset with value '' @ str_decimal e (asset_value obj)))
                     (get_client_ip req)
         in (HttpResponseRedirect Url_asset_list, db3)))"

text \<open>The form's current category on creation is the \<open>category\<close> query parameter, when it
  is not empty.\<close>

definition AssetCreateView_post ::
  "env \<Rightarrow> database \<Rightarrow> request \<Rightarrow> AssetForm \<Rightarrow> response \<times> database" where
  "AssetCreateView_post e db req form =
    (case req_user req of
       None \<Rightarrow> (HttpResponseRedirect Url_login, db)
     | Some u \<Rightarrow>
        (let current_category = (if GET_category req = Some [] then None else GET_category req)
         in if is_valid current_category form
            then AssetCreateView_form_valid e db req u form
            else (Render (asset_form_html None (AssetForm_errors current_category form)), db)))"

definition AssetUpdateView_get :: "database \<Rightarrow> request \<Rightarrow> nat \<Rightarrow> response \<times> database" where
  "AssetUpdateView_get db req pk =
    (case req_user req of
       None \<Rightarrow> (HttpResponseRedirect Url_login, db)
     | Some u \<Rightarrow>
        (case get_object (owned_by db u) pk of
           None \<Rightarrow> (Http404, db)
         | Some obj \<Rightarrow> (Render (asset_form_html (Some obj) []), db)))"

text \<open>The upload loop of \<open>AssetUpdateView.form_valid\<close>: each file is stored and logged.\<close>

fun upload_documents ::
  "env \<Rightarrow> database \<Rightarrow> request \<Rightarrow> nat \<Rightarrow> Asset \<Rightarrow> UploadedFile list \<Rightarrow> database" where
  "upload_documents e db req u obj [] = db"
| "upload_documents e db req u obj (f # files) =
    upload_documents e
      (log_action (snd (create_from_file e db obj f)) u ''upload'' obj
         (Some (''Uploaded document: '' @ upload_name f)) (get_client_ip req))
      req u obj files"

definition AssetUpdateView_form_valid ::
  "env \<Rightarrow> database \<Rightarrow> request \<Rightarrow> nat \<Rightarrow> Asset \<Rightarrow> AssetForm \<Rightarrow> response \<times> database" where
  "AssetUpdateView_form_valid e db req u instance form =
    (case form_save (asset_pk instance) (owner instance) form of
       None \<Rightarrow> (HttpResponseServerError, db)
     | Some obj \<Rightarrow>
        (let db1 = Asset_update db obj;
             db2 = upload_documents e db1 req u obj (FILES req);
             db3 = log_action db2 u ''update'' obj (Some ''Updated asset'') (get_client_ip req)
         in (HttpResponseRedirect (Url_asset_detail (asset_pk obj)), db3)))"

text \<open>On editing, the form's current category is the stored one.\<close>

definition AssetUpdateView_post ::
  "env \<Rightarrow> database \<Rightarrow> request \<Rightarrow> nat \<Rightarrow> AssetForm \<Rightarrow> response \<times> database" where
  "AssetUpdateView_post e db req pk form =
    (case req_user req of
       None \<Rightarrow> (HttpResponseRedirect Url_login, db)
     | Some u \<Rightarrow>
        (case get_object (owned_by db u) pk of
           None \<Rightarrow> (Http404, db)
         | Some instance \<Rightarrow>
            (let current_category = Some (category instance)
             in if is_valid current_category form
                then AssetUpdateView_form_valid e db req u instance form
                else (Render (asset_form_html (Some instance)
                               (AssetForm_errors current_category form)), db))))"

definition AssetDeleteView_get :: "database \<Rightarrow> request \<Rightarrow> nat \<Rightarrow> response \<times> database" where
  "AssetDeleteView_get db req pk =
    (case req_user req of
       None \<Rightarrow> (HttpResponseRedirect Url_login, db)
     | Some u \<Rightarrow>
        (case get_object (owned_by db u) pk of
           None \<Rightarrow> (Http404, db)
         | Some obj \<Rightarrow> (Render (asset_confirm_delete_html obj), db)))"

text \<open>\<open>AssetDeleteView.form_valid\<close>: the log row is written first, then the row is deleted.\<close>

definition AssetDeleteView_log :: "env \<Rightarrow> database \<Rightarrow> request \<Rightarrow> nat \<Rightarrow> Asset \<Rightarrow> database" where
  "AssetDeleteView_log e db req u obj =
    log_action db u ''delete'' obj
      (Some (''Deleted asset with value '' @ str_decimal e (asset_value obj)))
      (get_client_ip req)"

definition AssetDeleteView_form_valid ::
  "env \<Rightarrow> database \<Rightarrow> request \<Rightarrow> nat \<Rightarrow> Asset \<Rightarrow> response \<times> database" where
  "AssetDeleteView_form_valid e db req u obj =
    (let db1 = AssetDeleteView_log e db req u obj;
         db2 = Asset_delete db1 obj
     in (HttpResponseRedirect Url_asset_list, db2))"

definition AssetDeleteView_post ::
  "env \<Rightarrow> database \<Rightarrow> request \<Rightarrow> nat \<Rightarrow> response \<times> database" where
  "AssetDeleteView_post e db req pk =
    (case req_user req of
       None \<Rightarrow> (HttpResponseRedirect Url_login, db)
     | Some u \<Rightarrow>
        (case get_object (owned_by db u) pk of
           None \<Rightarrow> (Http404, db)
         | Some obj \<Rightarrow> AssetDeleteView_form_valid e db req u obj))"

subsection \<open>Document views\<close>

text \<open>\<open>get_object_or_404(AssetDocument, pk=pk)\<close> and the document's \<open>asset\<close> relation.\<close>

definition get_document :: "database \<Rightarrow> nat \<Rightarrow> AssetDocument option" where
  "get_document db pk = find (\<lambda>d. doc_pk d = pk) (documents db)"

definition document_asset :: "database \<Rightarrow> AssetDocument \<Rightarrow> Asset option" where
  "document_asset db d = find (\<lambda>a. asset_pk a = asset d) (assets db)"

definition download_forbidden :: string where
  "download_forbidden = ''You don'' @ [CHR 0x27] @ ''t have permission to download this document.''"

definition delete_forbidden :: string where
  "delete_forbidden = ''You don'' @ [CHR 0x27] @ ''t have permission to delete this document.''"

definition content_disposition :: "string option \<Rightarrow> string" where
  "content_disposition fname = ''attachment; filename='' @ [CHR 0x22] @ str_opt fname @ [CHR 0x22]"

definition download_document :: "database \<Rightarrow> request \<Rightarrow> nat \<Rightarrow> response" where
  "download_document db req pk =
    (case req_user req of
       None \<Rightarrow> HttpResponseRedirect Url_login
     | Some u \<Rightarrow>
        (case get_document db pk of
           None \<Rightarrow> Http404
         | Some document \<Rightarrow>
            (case document_asset db document of
               None \<Rightarrow> HttpResponseServerError
             | Some a \<Rightarrow>
                if owner a \<noteq> u then HttpResponseForbidden download_forbidden
                else HttpResponse (file_data document) (file_type document)
                       (content_disposition (file_name document)) (file_size document))))"

definition delete_document :: "database \<Rightarrow> request \<Rightarrow> nat \<Rightarrow> response \<times> database" where
  "delete_document db req pk =
    (case req_user req of
       None \<Rightarrow> (HttpResponseRedirect Url_login, db)
     | Some u \<Rightarrow>
        (case get_document db pk of
           None \<Rightarrow> (Http404, db)
         | Some document \<Rightarrow>
            (case document_asset db document of
               None \<Rightarrow> (HttpResponseServerError, db)
             | Some a \<Rightarrow>
                if owner a \<noteq> u then (HttpResponseForbidden delete_forbidden, db)
                else
                  (let doc_name = file_name document;
                       db1 = db\<lparr>documents :=
                                 filter (\<lambda>d. doc_pk d \<noteq> doc_pk document) (documents db)\<rparr>;
                       db2 = log_action db1 u ''delete'' a
                               (Some (''Deleted document: '' @ str_opt doc_name))
                               (get_client_ip req)
                   in (HttpResponseRedirect (Url_asset_detail (asset_pk a)), db2)))))"

subsection \<open>Dashboard and chart data\<close>

text \<open>\<open>Sum('value')\<close> over a queryset is NULL when the queryset is empty.\<close>

definition Sum_value :: "Asset list \<Rightarrow> int option" where
  "Sum_value queryset =
    (if queryset = [] then None else Some (sum_list (map asset_value queryset)))"

fun Coalesce :: "int option \<Rightarrow> int \<Rightarrow> int" where
  "Coalesce None d = d"
| "Coalesce (Some v) d = v"

text \<open>\<open>values('category').annotate(total=Sum('value'), count=Count('id')).order_by('-total')\<close>:
  one row per category that occurs in the queryset, largest total first (the order among
  equal totals is the database's; here it is that of first occurrence).\<close>

record breakdown_row =
  row_category :: string
  total :: int
  row_count :: nat

definition category_breakdown :: "Asset list \<Rightarrow> breakdown_row list" where
  "category_breakdown queryset =
    sort_key (\<lambda>item. - total item)
      (map (\<lambda>c. \<lparr>row_category = c,
                 total = sum_list (map asset_value (filter (\<lambda>a. category a = c) queryset)),
                 row_count = length (filter (\<lambda>a. category a = c) queryset)\<rparr>)
           (remdups (map category queryset)))"

definition colors :: "(string \<times> string) list" where
  "colors =
    [(''mutual_funds'', ''#3B82F6''),
     (''stocks'', ''#10B981''),
     (''lands'', ''#8B5CF6''),
     (''flats'', ''#F59E0B''),
     (''fixed_deposit'', ''#EF4444''),
     (''medical_insurance'', ''#EC4899''),
     (''life_insurance'', ''#06B6D4''),
     (''gold'', ''#F97316'')]"

text \<open>\<open>dict.get(key, fallback)\<close>.\<close>

definition dict_get :: "(string \<times> string) list \<Rightarrow> string \<Rightarrow> string \<Rightarrow> string" where
  "dict_get d k fallback = (case map_of d k of None \<Rightarrow> fallback | Some v \<Rightarrow> v)"

definition chart_labels :: "breakdown_row list \<Rightarrow> string list" where
  "chart_labels bd = map (\<lambda>item. dict_get CATEGORY_CHOICES (row_category item) (row_category item)) bd"

definition chart_values :: "breakdown_row list \<Rightarrow> int list" where
  "chart_values bd = map total bd"

definition chart_colors :: "breakdown_row list \<Rightarrow> string list" where
  "chart_colors bd = map (\<lambda>item. dict_get colors (row_category item) ''#6B7280'') bd"


record dashboard_context =
  total_value :: int
  total_assets :: nat
  ctx_category_breakdown :: "breakdown_row list"
  chart_data :: "string list \<times> int list \<times> string list"
  recent_assets :: "Asset list"
  recent_activity :: "ActivityLog list"
  category_counts :: "string \<rightharpoonup> nat"

text \<open>\<open>DashboardView.get_context_data\<close>. Querysets are ordered newest first, which is the
  reverse of insertion order.\<close>

definition DashboardView_get_context_data :: "database \<Rightarrow> nat \<Rightarrow> dashboard_context" where
  "DashboardView_get_context_data db u =
    (let queryset = owned_by db u;
         bd = category_breakdown queryset
     in \<lparr>total_value = Coalesce (Sum_value queryset) 0,
         total_assets = length queryset,
         ctx_category_breakdown = bd,
         chart_data = (chart_labels bd, chart_values bd, chart_colors bd),
         recent_assets = take 5 (rev queryset),
         recent_activity = take 10 (rev (filter (\<lambda>l. user l = Some u) (activity_logs db))),
         category_counts =
           foldl (\<lambda>m item. m(row_category item \<mapsto> row_count item))
             (map_of (map (\<lambda>cat. (fst cat, 0)) CATEGORY_CHOICES)) bd\<rparr>)"

section \<open>Reachable databases\<close>

text \<open>The databases the application can reach from the empty one through the views that
  write: viewing, creating, editing and deleting an asset, and deleting a document. (The
  other views only read.)\<close>

inductive reachable :: "env \<Rightarrow> database \<Rightarrow> bool" for e :: env where
  reachable_empty: "reachable e empty_db"
| reachable_detail: "reachable e db \<Longrightarrow> reachable e (snd (AssetDetailView_get db req pk))"
| reachable_create: "reachable e db \<Longrightarrow> reachable e (snd (AssetCreateView_post e db req form))"
| reachable_update: "reachable e db \<Longrightarrow> reachable e (snd (AssetUpdateView_post e db req pk form))"
| reachable_delete: "reachable e db \<Longrightarrow> reachable e (snd (AssetDeleteView_post e db req pk))"
| reachable_delete_document: "reachable e db \<Longrightarrow> reachable e (snd (delete_document db req pk))"

text \<open>The invariant of the data model on a row: the end date, if present, is not before
  the start date.\<close>

definition end_date_ok :: "Asset \<Rightarrow> bool" where
  "end_date_ok a = (case end_date a of None \<Rightarrow> True | Some d \<Rightarrow> start_date a \<le> d)"

section \<open>Example data\<close>

text \<open>Two users, 1 and 2: user 1 owns a plot of land with one document, user 2 owns
  shares.\<close>

text \<open>An environment: only PDF names have a known type, and a value is printed with its
  two decimal places.\<close>

definition digit_char :: "nat \<Rightarrow> char" where
  "digit_char d = ''0123456789'' ! d"

fun str_nat :: "nat \<Rightarrow> string" where
  "str_nat n = (if n < 10 then [digit_char n] else str_nat (n div 10) @ [digit_char (n mod 10)])"

declare str_nat.simps [simp del]

definition str_hundredths :: "int \<Rightarrow> string" where
  "str_hundredths v =
    (if v < 0 then ''-'' else []) @ str_nat (nat \<bar>v\<bar> div 100) @ ''.'' @
    [digit_char (nat \<bar>v\<bar> mod 100 div 10), digit_char (nat \<bar>v\<bar> mod 10)]"

definition example_env :: env where
  "example_env =
    \<lparr>guess_type = (\<lambda>n. if lower (snd (splitext n)) = ''.pdf''
                         then Some ''application/pdf'' else None),
     str_decimal = str_hundredths,
     ALLOWED_DOCUMENT_EXTENSIONS = [''.pdf'', ''.jpg'', ''.jpeg'', ''.png''],
     MAX_DOCUMENT_SIZE = 10485760\<rparr>"

definition plot :: Asset where
  "plot = \<lparr>asset_pk = 1, owner = 1, name = ''Plot'', category = ''lands'',
            asset_value = 25050, start_date = 738000, end_date = None,
            latitude = Some 129716000, longitude = Some 775946000, other_fields = []\<rparr>"

definition shares :: Asset where
  "shares = \<lparr>asset_pk = 2, owner = 2, name = ''Shares'', category = ''stocks'',
              asset_value = 10000, start_date = 738100, end_date = Some 738500,
              latitude = None, longitude = None, other_fields = []\<rparr>"

definition deed :: AssetDocument where
  "deed = \<lparr>doc_pk = 1, asset = 1, file_data = Some [0x25, 0x50, 0x44, 0x46],
            file_name = Some ''deed.pdf'', file_type = Some ''application/pdf'',
            file_size = Some 4, doc_name = ''deed''\<rparr>"

definition example_db :: database where
  "example_db = \<lparr>assets = [plot, shares], documents = [deed], activity_logs = [],
                  next_asset_pk = 3, next_doc_pk = 2\<rparr>"

definition alice_request :: request where
  "alice_request = \<lparr>req_user = Some 1, http_x_forwarded_for = None,
     remote_addr = Some ''10.0.0.1'', GET_category = None, FILES = []\<rparr>"

definition bob_request :: request where
  "bob_request = \<lparr>req_user = Some 2, http_x_forwarded_for = Some ''10.0.0.2, 10.0.0.9'',
     remote_addr = Some ''10.0.0.9'', GET_category = None, FILES = []\<rparr>"

text \<open>Submitted forms: land on the equator, a flat whose end date is before its start
  date, and gold.\<close>

definition equator_form :: AssetForm where
  "equator_form =
    \<lparr>form_name = Value ''Equator plot'', form_category = Value ''lands'',
     form_value = Value 35050, form_start_date = Value 738000, form_end_date = Empty,
     form_latitude = Value 0, form_longitude = Value 775946000, form_other_fields = []\<rparr>"

definition backdated_form :: AssetForm where
  "backdated_form =
    \<lparr>form_name = Value ''Flat'', form_category = Value ''flats'',
     form_value = Value 9000000, form_start_date = Value 738000, form_end_date = Value 737000,
     form_latitude = Empty, form_longitude = Empty, form_other_fields = []\<rparr>"

definition gold_form :: AssetForm where
  "gold_form =
    \<lparr>form_name = Value ''Coins'', form_category = Value ''gold'',
     form_value = Value 120000, form_start_date = Value 738000, form_end_date = Empty,
     form_latitude = Empty, form_longitude = Empty, form_other_fields = []\<rparr>"

text \<open>Uploaded files.\<close>

definition deed_pdf :: UploadedFile where
  "deed_pdf = \<lparr>upload_name = ''deed.pdf'', upload_content = [0x25, 0x50, 0x44, 0x46]\<rparr>"

definition malware_exe :: UploadedFile where
  "malware_exe = \<lparr>upload_name = ''malware.exe'', upload_content = [0x4D, 0x5A]\<rparr>"

text \<open>A larger database: user 1 owns the plot, coins and bars; user 2 owns the shares.\<close>

definition coins :: Asset where
  "coins = \<lparr>asset_pk = 3, owner = 1, name = ''Coins'', category = ''gold'',
             asset_value = 10000, start_date = 738200, end_date = None,
             latitude = None, longitude = None, other_fields = []\<rparr>"

definition bars :: Asset where
  "bars = \<lparr>asset_pk = 4, owner = 1, name = ''Bars'', category = ''gold'',
            asset_value = 5000, start_date = 738300, end_date = None,
            latitude = None, longitude = None, other_fields = []\<rparr>"

definition portfolio_db :: database where
  "portfolio_db = \<lparr>assets = [plot, shares, coins, bars], documents = [deed],
                    activity_logs = [], next_asset_pk = 5, next_doc_pk = 2\<rparr>"

text \<open>The database after user 1 has created the gold asset in the empty database.\<close>

definition after_create_db :: database where
  "after_create_db = snd (AssetCreateView_post example_env empty_db alice_request gold_form)"

section \<open>Properties\<close>

subsection \<open>Printed values of the examples\<close>


lemma str_gold_value: "str_hundredths 120000 = ''1200.00''"
  by (simp add: str_hundredths_def str_nat.simps digit_char_def)

subsection \<open>Queries\<close>

lemma get_object_pk: "get_object qs pk = Some obj \<Longrightarrow> asset_pk obj = pk \<and> obj \<in> set qs"
  unfolding get_object_def by (induction qs) (auto split: if_splits)

lemma owned_by_set: "obj \<in> set (owned_by db u) \<longleftrightarrow> obj \<in> set (assets db) \<and> owner obj = u"
  by (auto simp: owned_by_def)

subsection \<open>Deleting an asset\<close>



subsection \<open>Deleting a document\<close>



subsection \<open>Access to another user's data\<close>

lemma find_other_owner:
  assumes "distinct (map asset_pk xs)" and "a \<in> set xs" and "asset_pk a = pk"
    and "owner a \<noteq> u"
  shows "find (\<lambda>x. asset_pk x = pk) (filter (\<lambda>x. owner x = u) xs) = None"
proof -
  have "x \<in> set xs \<Longrightarrow> asset_pk x = pk \<Longrightarrow> x = a" for x
    using assms(1-3) by (auto simp: distinct_map inj_on_def)
  then show ?thesis
    using assms(4) by (auto simp: find_None_iff)
qed

lemma get_object_other_owner:
  assumes "wf_db db" and "a \<in> set (assets db)" and "asset_pk a = pk" and "owner a \<noteq> u"
  shows "get_object (owned_by db u) pk = None"
  using assms find_other_owner [of "assets db" a pk u]
  by (simp add: wf_db_def get_object_def owned_by_def)

lemma wf_example_db: "wf_db example_db"
  by (simp add: wf_db_def example_db_def plot_def shares_def deed_def)

text \<open>
  Claim C1, as stated, fails for the asset views: user 2 asking for the asset of user 1
  gets the not-found response from the view, edit and delete views, not a
  permission-denied one.
\<close>

theorem C1_counterexample:
  "req_user bob_request = Some 2 \<and> plot \<in> set (assets example_db) \<and> owner plot = 1
   \<and> AssetDetailView_get example_db bob_request (asset_pk plot) = (Http404, example_db)
   \<and> AssetUpdateView_get example_db bob_request (asset_pk plot) = (Http404, example_db)
   \<and> AssetDeleteView_post example_env example_db bob_request (asset_pk plot)
       = (Http404, example_db)"
  by (simp add: bob_request_def example_db_def plot_def shares_def AssetDetailView_get_def
      AssetUpdateView_get_def AssetDeleteView_post_def get_object_def owned_by_def)

text \<open>
  Claim C1, amended. For a logged-in user and an asset owned by someone else, the asset
  view, edit and delete views answer not-found and leave the database as it is (no row is
  changed, none is logged); for a document of such an asset, the download and delete views
  answer permission-denied and leave the database as it is. Neither answer carries any
  data of the asset or the document.
\<close>

theorem C1_other_users_data_is_not_returned:
  assumes "wf_db db" and "req_user req = Some u"
  shows "(a \<in> set (assets db) \<and> asset_pk a = pk \<and> owner a \<noteq> u \<longrightarrow>
            AssetDetailView_get db req pk = (Http404, db)
          \<and> AssetUpdateView_get db req pk = (Http404, db)
          \<and> AssetUpdateView_post e db req pk form = (Http404, db)
          \<and> AssetDeleteView_get db req pk = (Http404, db)
          \<and> AssetDeleteView_post e db req pk = (Http404, db))
       \<and> (get_document db dpk = Some d \<and> document_asset db d = Some a \<and> owner a \<noteq> u \<longrightarrow>
            download_document db req dpk = HttpResponseForbidden download_forbidden
          \<and> delete_document db req dpk = (HttpResponseForbidden delete_forbidden, db))"
proof (intro conjI impI)
  assume h: "a \<in> set (assets db) \<and> asset_pk a = pk \<and> owner a \<noteq> u"
  then have none: "get_object (owned_by db u) pk = None"
    using get_object_other_owner [OF assms(1), of a pk u] by simp
  show "AssetDetailView_get db req pk = (Http404, db)"
    using none assms(2) by (simp add: AssetDetailView_get_def)
  show "AssetUpdateView_get db req pk = (Http404, db)"
    using none assms(2) by (simp add: AssetUpdateView_get_def)
  show "AssetUpdateView_post e db req pk form = (Http404, db)"
    using none assms(2) by (simp add: AssetUpdateView_post_def)
  show "AssetDeleteView_get db req pk = (Http404, db)"
    using none assms(2) by (simp add: AssetDeleteView_get_def)
  show "AssetDeleteView_post e db req pk = (Http404, db)"
    using none assms(2) by (simp add: AssetDeleteView_post_def)
next
  assume h: "get_document db dpk = Some d \<and> document_asset db d = Some a \<and> owner a \<noteq> u"
  show "download_document db req dpk = HttpResponseForbidden download_forbidden"
    using h assms(2) by (simp add: download_document_def)
  show "delete_document db req dpk = (HttpResponseForbidden delete_forbidden, db)"
    using h assms(2) by (simp add: delete_document_def)
qed

theorem C1_other_users_data_is_not_returned_witness:
  "wf_db example_db \<and> req_user bob_request = Some 2
   \<and> plot \<in> set (assets example_db) \<and> asset_pk plot = 1 \<and> owner plot \<noteq> 2
   \<and> get_document example_db 1 = Some deed \<and> document_asset example_db deed = Some plot
   \<and> AssetDetailView_get example_db bob_request 1 = (Http404, example_db)
   \<and> AssetUpdateView_get example_db bob_request 1 = (Http404, example_db)
   \<and> AssetUpdateView_post example_env example_db bob_request 1 gold_form
       = (Http404, example_db)
   \<and> AssetDeleteView_get example_db bob_request 1 = (Http404, example_db)
   \<and> AssetDeleteView_post example_env example_db bob_request 1 = (Http404, example_db)
   \<and> download_document example_db bob_request 1 = HttpResponseForbidden download_forbidden
   \<and> delete_document example_db bob_request 1
       = (HttpResponseForbidden delete_forbidden, example_db)"
proof -
  have u: "req_user bob_request = Some 2" by (simp add: bob_request_def)
  have m: "plot \<in> set (assets example_db) \<and> asset_pk plot = 1 \<and> owner plot \<noteq> 2"
    by (simp add: example_db_def plot_def)
  have d: "get_document example_db 1 = Some deed \<and> document_asset example_db deed = Some plot"
    by (simp add: get_document_def document_asset_def example_db_def deed_def plot_def)
  show ?thesis
    using u m d wf_example_db
      C1_other_users_data_is_not_returned [OF wf_example_db u,
        where a = plot and pk = 1 and d = deed and dpk = 1 and e = example_env
          and form = gold_form]
    by simp
qed

subsection \<open>Storing and downloading a document\<close>







subsection \<open>Land on the equator\<close>

text \<open>
  Claim C4 at a failing input. A land asset with both coordinates present, latitude 0
  and longitude 77.5946, is rejected: \<open>clean\<close> tests the coordinates for truth, and a zero
  \<open>Decimal\<close> is false. Nothing is stored.
\<close>

theorem C4_land_with_zero_latitude_is_rejected:
  "form_latitude equator_form = Value 0 \<and> form_longitude equator_form = Value 775946000
   \<and> AssetForm_clean equator_form
       = Inl ''Latitude and Longitude are required for land assets.''
   \<and> AssetCreateView_post example_env empty_db alice_request equator_form
       = (Render (asset_form_html None
                   [''Latitude and Longitude are required for land assets.'']), empty_db)
   \<and> AssetCreateView_post example_env empty_db
         (alice_request\<lparr>GET_category := Some ''lands''\<rparr>) equator_form
       = (Render (asset_form_html None
                   [''Latitude and Longitude are required for land assets.'']), empty_db)"
  by (simp add: AssetCreateView_post_def is_valid_def AssetForm_errors_def AssetForm_clean_def
      equator_form_def alice_request_def)

subsection \<open>Uploads on the asset forms\<close>

lemma splitext_malware: "splitext ''malware.exe'' = (''malware'', ''.exe'')"
  by code_simp

lemma lower_exe: "lower ''.exe'' = ''.exe''"
  by code_simp

text \<open>
  Claim C6 at a failing input. \<open>clean_files\<close> refuses a file named malware.exe, but
  neither asset view runs it: creating an asset and editing one both store the file as a
  document.
\<close>

theorem C6_disallowed_file_is_stored:
  "clean_files example_env [malware_exe] = Some (FileTypeNotAllowed ''.exe'')
   \<and> documents (snd (AssetCreateView_post example_env empty_db
                       (alice_request\<lparr>FILES := [malware_exe]\<rparr>) gold_form))
       = [\<lparr>doc_pk = 1, asset = 1, file_data = Some [0x4D, 0x5A],
           file_name = Some ''malware.exe'', file_type = Some ''application/octet-stream'',
           file_size = Some 2, doc_name = ''malware''\<rparr>]
   \<and> documents (snd (AssetUpdateView_post example_env example_db
                       (bob_request\<lparr>FILES := [malware_exe]\<rparr>) 2 gold_form))
       = [deed,
          \<lparr>doc_pk = 2, asset = 2, file_data = Some [0x4D, 0x5A],
           file_name = Some ''malware.exe'', file_type = Some ''application/octet-stream'',
           file_size = Some 2, doc_name = ''malware''\<rparr>]"
  by (simp add: AssetCreateView_post_def AssetCreateView_form_valid_def
      AssetUpdateView_post_def AssetUpdateView_form_valid_def is_valid_def
      AssetForm_errors_def AssetForm_clean_def form_save_def gold_form_def alice_request_def
      Asset_insert_def Asset_update_def create_from_file_def AssetDocument_save_def
      log_action_def empty_db_def example_db_def plot_def shares_def example_env_def
      malware_exe_def bob_request_def Let_def get_object_def owned_by_def splitext_malware
      lower_exe)

text \<open>
  Claim C8 at a failing input. Creating an asset with one uploaded file stores the
  document and logs one row, of kind create: no upload row is written. Editing an asset
  with the same file logs an upload row and an update row.
\<close>

theorem C8_upload_on_create_is_not_logged:
  "length (documents (snd (AssetCreateView_post example_env empty_db
                             (alice_request\<lparr>FILES := [deed_pdf]\<rparr>) gold_form))) = 1
   \<and> map action (activity_logs (snd (AssetCreateView_post example_env empty_db
                             (alice_request\<lparr>FILES := [deed_pdf]\<rparr>) gold_form)))
       = [''create'']
   \<and> map action (activity_logs (snd (AssetUpdateView_post example_env example_db
                             (bob_request\<lparr>FILES := [deed_pdf]\<rparr>) 2 gold_form)))
       = [''upload'', ''update'']"
  by (simp add: AssetCreateView_post_def AssetCreateView_form_valid_def
      AssetUpdateView_post_def AssetUpdateView_form_valid_def is_valid_def
      AssetForm_errors_def AssetForm_clean_def form_save_def gold_form_def alice_request_def
      Asset_insert_def Asset_update_def create_from_file_def AssetDocument_save_def
      log_action_def empty_db_def example_db_def plot_def shares_def
      deed_pdf_def bob_request_def Let_def get_object_def owned_by_def)

subsection \<open>What the views do to the asset table\<close>

lemma assets_log_action: "assets (log_action db u act a dets ip) = assets db"
  by (simp add: log_action_def)

lemma assets_create_from_file: "assets (snd (create_from_file e db a f)) = assets db"
  by (simp add: create_from_file_def AssetDocument_save_def Let_def)

lemma assets_create_documents: "assets (create_documents e db obj files) = assets db"
  by (induction files arbitrary: db) (simp_all add: assets_create_from_file)

lemma assets_upload_documents: "assets (upload_documents e db req u obj files) = assets db"
  by (induction files arbitrary: db)
     (simp_all add: assets_create_from_file assets_log_action)

lemma form_save_Some:
  assumes "form_save pk u f = Some a"
  shows "asset_pk a = pk \<and> owner a = u
       \<and> form_start_date f = Value (start_date a)
       \<and> end_date a = cleaned_get (form_end_date f)"
  using assms
  by (auto simp: form_save_def split: field_input.splits)

lemma assets_create_post:
  assumes "req_user req = Some v"
  shows "assets (snd (AssetCreateView_post e db req form)) = assets db
       \<or> (\<exists>obj. form_save (next_asset_pk db) v form = Some obj
              \<and> is_valid (if GET_category req = Some [] then None else GET_category req) form
              \<and> assets (snd (AssetCreateView_post e db req form)) = assets db @ [obj])"
proof (cases "is_valid (if GET_category req = Some [] then None else GET_category req) form")
  case False
  then show ?thesis using assms by (simp add: AssetCreateView_post_def Let_def)
next
  case valid: True
  show ?thesis
  proof (cases "form_save 0 v form")
    case None
    then show ?thesis
      using assms valid
      by (simp add: AssetCreateView_post_def AssetCreateView_form_valid_def Let_def)
  next
    case (Some inst)
    then have "form_save (next_asset_pk db) v form = Some (inst\<lparr>asset_pk := next_asset_pk db\<rparr>)"
      by (auto simp: form_save_def split: field_input.splits)
    then show ?thesis
      using assms valid Some
      by (simp add: AssetCreateView_post_def AssetCreateView_form_valid_def Let_def
          Asset_insert_def assets_log_action assets_create_documents)
  qed
qed

lemma assets_update_post:
  assumes "req_user req = Some v"
  shows "assets (snd (AssetUpdateView_post e db req pk form)) = assets db
       \<or> (\<exists>inst obj. get_object (owned_by db v) pk = Some inst
              \<and> form_save pk v form = Some obj
              \<and> is_valid (Some (category inst)) form
              \<and> assets (snd (AssetUpdateView_post e db req pk form)) =
                   map (\<lambda>a. if asset_pk a = pk then obj else a) (assets db))"
proof (cases "get_object (owned_by db v) pk")
  case None
  then show ?thesis using assms by (simp add: AssetUpdateView_post_def)
next
  case (Some inst)
  then have ipk: "asset_pk inst = pk" and iown: "owner inst = v"
    using get_object_pk owned_by_set by blast+
  show ?thesis
  proof (cases "is_valid (Some (category inst)) form")
    case False
    then show ?thesis using assms Some by (simp add: AssetUpdateView_post_def Let_def)
  next
    case valid: True
    show ?thesis
    proof (cases "form_save pk v form")
      case None
      then show ?thesis
        using assms Some valid ipk iown
        by (simp add: AssetUpdateView_post_def AssetUpdateView_form_valid_def Let_def)
    next
      case obj: (Some obj)
      then have "asset_pk obj = pk" using form_save_Some by blast
      then show ?thesis
        using assms Some valid ipk iown obj
        by (simp add: AssetUpdateView_post_def AssetUpdateView_form_valid_def Let_def
            Asset_update_def assets_log_action assets_upload_documents)
    qed
  qed
qed

lemma assets_delete_post:
  assumes "req_user req = Some v"
  shows "assets (snd (AssetDeleteView_post e db req pk)) = assets db
       \<or> (\<exists>obj. get_object (owned_by db v) pk = Some obj
              \<and> assets (snd (AssetDeleteView_post e db req pk)) =
                   filter (\<lambda>a. asset_pk a \<noteq> pk) (assets db))"
proof (cases "get_object (owned_by db v) pk")
  case None
  then show ?thesis using assms by (simp add: AssetDeleteView_post_def)
next
  case (Some obj)
  then have "asset_pk obj = pk" using get_object_pk by blast
  then show ?thesis
    using assms Some
    by (simp add: AssetDeleteView_post_def AssetDeleteView_form_valid_def Let_def
        Asset_delete_def AssetDeleteView_log_def assets_log_action)
qed

subsection \<open>Total value\<close>

lemma pk_owner_unique:
  assumes "distinct (map asset_pk xs)" and "inst \<in> set xs" and "x \<in> set xs"
    and "asset_pk x = asset_pk inst"
  shows "x = inst"
  using assms by (auto simp: distinct_map inj_on_def)

lemma filter_owner_map_update:
  assumes "\<forall>x \<in> set xs. asset_pk x = pk \<longrightarrow> owner x \<noteq> u" and "owner obj \<noteq> u"
  shows "filter (\<lambda>a. owner a = u) (map (\<lambda>a. if asset_pk a = pk then obj else a) xs)
       = filter (\<lambda>a. owner a = u) xs"
  using assms by (induction xs) auto

lemma filter_owner_filter_pk:
  assumes "\<forall>x \<in> set xs. asset_pk x = pk \<longrightarrow> owner x \<noteq> u"
  shows "filter (\<lambda>a. owner a = u) (filter (\<lambda>a. asset_pk a \<noteq> pk) xs)
       = filter (\<lambda>a. owner a = u) xs"
  using assms by (induction xs) auto

lemma others_rows:
  assumes "wf_db db" and "get_object (owned_by db v) pk = Some inst" and "v \<noteq> u"
  shows "\<forall>x \<in> set (assets db). asset_pk x = pk \<longrightarrow> owner x \<noteq> u"
proof (intro ballI impI)
  fix x assume x: "x \<in> set (assets db)" "asset_pk x = pk"
  from assms(2) have i: "inst \<in> set (assets db)" "asset_pk inst = pk" "owner inst = v"
    using get_object_pk owned_by_set by blast+
  have "x = inst"
    using pk_owner_unique [of "assets db" inst x] assms(1) x i by (simp add: wf_db_def)
  then show "owner x \<noteq> u" using i assms(3) by simp
qed

lemma owned_by_create_post:
  assumes "req_user req = Some v" and "v \<noteq> u"
  shows "owned_by (snd (AssetCreateView_post e db req form)) u = owned_by db u"
  using assets_create_post [OF assms(1), of e db form] assms(2)
  by (auto simp: owned_by_def dest: form_save_Some)

lemma owned_by_update_post:
  assumes "wf_db db" and "req_user req = Some v" and "v \<noteq> u"
  shows "owned_by (snd (AssetUpdateView_post e db req pk form)) u = owned_by db u"
proof -
  from assets_update_post [OF assms(2), of e db pk form]
  consider "assets (snd (AssetUpdateView_post e db req pk form)) = assets db"
    | inst obj where "get_object (owned_by db v) pk = Some inst"
        "form_save pk v form = Some obj"
        "assets (snd (AssetUpdateView_post e db req pk form)) =
           map (\<lambda>a. if asset_pk a = pk then obj else a) (assets db)"
    by blast
  then show ?thesis
  proof cases
    case 1
    then show ?thesis by (simp add: owned_by_def)
  next
    case 2
    have "owner obj \<noteq> u" using form_save_Some [OF 2(2)] assms(3) by simp
    then show ?thesis
      using filter_owner_map_update [OF others_rows [OF assms(1) 2(1) assms(3)]] 2(3)
      by (simp add: owned_by_def)
  qed
qed

lemma owned_by_delete_post:
  assumes "wf_db db" and "req_user req = Some v" and "v \<noteq> u"
  shows "owned_by (snd (AssetDeleteView_post e db req pk)) u = owned_by db u"
proof -
  from assets_delete_post [OF assms(2), of e db pk]
  consider "assets (snd (AssetDeleteView_post e db req pk)) = assets db"
    | obj where "get_object (owned_by db v) pk = Some obj"
        "assets (snd (AssetDeleteView_post e db req pk)) =
           filter (\<lambda>a. asset_pk a \<noteq> pk) (assets db)"
    by blast
  then show ?thesis
  proof cases
    case 1
    then show ?thesis by (simp add: owned_by_def)
  next
    case 2
    then show ?thesis
      using filter_owner_filter_pk [OF others_rows [OF assms(1) 2(1) assms(3)]]
      by (simp add: owned_by_def)
  qed
qed

lemma total_value_owned_by:
  "total_value (DashboardView_get_context_data db u) =
     Coalesce (Sum_value (owned_by db u)) 0"
  by (simp add: DashboardView_get_context_data_def Let_def)

text \<open>
  Claim C2. The dashboard's total value for a user is the sum of \<open>value\<close> over the assets
  that user owns, zero when there are none, and it is the same before and after another
  logged-in user creates, edits or deletes an asset.
\<close>

theorem C2_total_value:
  assumes "wf_db db" and "req_user req = Some v" and "v \<noteq> u"
  shows "total_value (DashboardView_get_context_data db u) =
           sum_list (map asset_value (filter (\<lambda>a. owner a = u) (assets db)))
       \<and> (filter (\<lambda>a. owner a = u) (assets db) = [] \<longrightarrow>
            total_value (DashboardView_get_context_data db u) = 0)
       \<and> total_value (DashboardView_get_context_data
            (snd (AssetCreateView_post e db req form)) u) =
           total_value (DashboardView_get_context_data db u)
       \<and> total_value (DashboardView_get_context_data
            (snd (AssetUpdateView_post e db req pk form)) u) =
           total_value (DashboardView_get_context_data db u)
       \<and> total_value (DashboardView_get_context_data
            (snd (AssetDeleteView_post e db req pk)) u) =
           total_value (DashboardView_get_context_data db u)"
proof -
  have sum: "Coalesce (Sum_value qs) 0 = sum_list (map asset_value qs)" for qs
    by (simp add: Sum_value_def)
  show ?thesis
    unfolding total_value_owned_by sum
      owned_by_create_post [OF assms(2,3)]
      owned_by_update_post [OF assms]
      owned_by_delete_post [OF assms]
    by (simp add: owned_by_def)
qed

lemma wf_portfolio_db: "wf_db portfolio_db"
  by (simp add: wf_db_def portfolio_db_def plot_def shares_def coins_def bars_def deed_def)

theorem C2_total_value_witness:
  "wf_db portfolio_db \<and> req_user bob_request = Some 2 \<and> (2::nat) \<noteq> 1
   \<and> total_value (DashboardView_get_context_data portfolio_db 1) = 40050
   \<and> total_value (DashboardView_get_context_data
        (snd (AssetCreateView_post example_env portfolio_db bob_request gold_form)) 1) = 40050
   \<and> total_value (DashboardView_get_context_data
        (snd (AssetUpdateView_post example_env portfolio_db bob_request 2 gold_form)) 1) = 40050
   \<and> total_value (DashboardView_get_context_data
        (snd (AssetDeleteView_post example_env portfolio_db bob_request 2)) 1) = 40050"
proof -
  have u: "req_user bob_request = Some 2" by (simp add: bob_request_def)
  have n: "(2::nat) \<noteq> 1" by simp
  have t: "sum_list (map asset_value (filter (\<lambda>a. owner a = 1) (assets portfolio_db))) = 40050"
    by (simp add: portfolio_db_def plot_def shares_def coins_def bars_def)
  show ?thesis
    using u t wf_portfolio_db
      C2_total_value [OF wf_portfolio_db u n, of example_env gold_form 2]
    by simp
qed

subsection \<open>Chart data\<close>






subsection \<open>Date order\<close>

lemma clean_of_valid:
  assumes "is_valid cc f"
  shows "AssetForm_clean f = Inr f"
proof (cases "AssetForm_clean f")
  case (Inl msg)
  then show ?thesis using assms by (simp add: is_valid_def AssetForm_errors_def)
next
  case (Inr g)
  then show ?thesis by (auto simp: AssetForm_clean_def Let_def split: if_splits)
qed

lemma valid_form_dates:
  assumes "is_valid cc f" and "form_save pk v f = Some a"
  shows "end_date_ok a"
proof -
  from form_save_Some [OF assms(2)]
  have s: "form_start_date f = Value (start_date a)"
    and e: "end_date a = cleaned_get (form_end_date f)" by simp_all
  from clean_of_valid [OF assms(1)] show ?thesis
    using s e
    by (cases "form_end_date f")
       (auto simp: AssetForm_clean_def end_date_ok_def Let_def split: if_splits)
qed

lemma backdated_form_errors:
  assumes "form_start_date f = Value s" and "form_end_date f = Value d" and "d < s"
  shows "AssetForm_clean f = Inl ''End date cannot be before start date.''"
    and "\<not> is_valid cc f"
    and "''End date cannot be before start date.'' \<in> set (AssetForm_errors cc f)"
proof -
  show c: "AssetForm_clean f = Inl ''End date cannot be before start date.''"
    using assms by (simp add: AssetForm_clean_def)
  show "''End date cannot be before start date.'' \<in> set (AssetForm_errors cc f)"
    by (simp add: AssetForm_errors_def c)
  then show "\<not> is_valid cc f"
    unfolding is_valid_def by (metis empty_iff empty_set)
qed

lemma assets_detail_get: "assets (snd (AssetDetailView_get db req pk)) = assets db"
  by (simp add: AssetDetailView_get_def assets_log_action split: option.splits)

lemma assets_delete_document: "assets (snd (delete_document db req pk)) = assets db"
  by (simp add: delete_document_def assets_log_action Let_def split: option.splits)

lemma no_user_create: "req_user req = None \<Longrightarrow> snd (AssetCreateView_post e db req form) = db"
  by (simp add: AssetCreateView_post_def)

lemma no_user_update: "req_user req = None \<Longrightarrow> snd (AssetUpdateView_post e db req pk form) = db"
  by (simp add: AssetUpdateView_post_def)

lemma no_user_delete: "req_user req = None \<Longrightarrow> snd (AssetDeleteView_post e db req pk) = db"
  by (simp add: AssetDeleteView_post_def)

lemma reachable_dates:
  assumes "reachable e db"
  shows "list_all end_date_ok (assets db)"
  using assms
proof (induction rule: reachable.induct)
  case reachable_empty
  show ?case by (simp add: empty_db_def)
next
  case (reachable_detail db req pk)
  then show ?case by (simp add: assets_detail_get)
next
  case (reachable_create db req form)
  show ?case
  proof (cases "req_user req")
    case None
    then show ?thesis using reachable_create.IH by (simp add: no_user_create)
  next
    case (Some v)
    from assets_create_post [OF Some, of e db form] show ?thesis
      using reachable_create.IH valid_form_dates by auto
  qed
next
  case (reachable_update db req pk form)
  show ?case
  proof (cases "req_user req")
    case None
    then show ?thesis using reachable_update.IH by (simp add: no_user_update)
  next
    case (Some v)
    from assets_update_post [OF Some, of e db pk form] show ?thesis
      using reachable_update.IH valid_form_dates by (auto simp: list_all_iff)
  qed
next
  case (reachable_delete db req pk)
  show ?case
  proof (cases "req_user req")
    case None
    then show ?thesis using reachable_delete.IH by (simp add: no_user_delete)
  next
    case (Some v)
    from assets_delete_post [OF Some, of e db pk] show ?thesis
      using reachable_delete.IH by (auto simp: list_all_iff)
  qed
next
  case (reachable_delete_document db req pk)
  then show ?case by (simp add: assets_delete_document)
qed

text \<open>
  Claim C5. In every database the application reaches through its views, each stored
  asset has no end date or an end date that is not before its start date. A create or edit
  submission by a logged-in user in which both dates are present and the end date is
  before the start date is answered with the form and its validation error
  (edit: or with not-found, when the asset is not the user's), and the database stays as
  it was.
\<close>

theorem C5_end_date_not_before_start_date:
  "(reachable e db \<longrightarrow> list_all end_date_ok (assets db))
   \<and> (req_user req = Some u \<and> form_start_date form = Value s
        \<and> form_end_date form = Value d \<and> d < s \<longrightarrow>
        (\<exists>errors. AssetCreateView_post e db req form = (Render (asset_form_html None errors), db)
           \<and> ''End date cannot be before start date.'' \<in> set errors)
      \<and> snd (AssetUpdateView_post e db req pk form) = db
      \<and> (fst (AssetUpdateView_post e db req pk form) = Http404
          \<or> (\<exists>inst errors. fst (AssetUpdateView_post e db req pk form)
                              = Render (asset_form_html (Some inst) errors)
               \<and> ''End date cannot be before start date.'' \<in> set errors)))"
proof (intro conjI impI)
  assume "reachable e db"
  then show "list_all end_date_ok (assets db)" by (rule reachable_dates)
next
  assume h: "req_user req = Some u \<and> form_start_date form = Value s
        \<and> form_end_date form = Value d \<and> d < s"
  then have u: "req_user req = Some u" and s: "form_start_date form = Value s"
    and d: "form_end_date form = Value d" and lt: "d < s" by simp_all
  note bad = backdated_form_errors [OF s d lt]
  show "\<exists>errors. AssetCreateView_post e db req form = (Render (asset_form_html None errors), db)
           \<and> ''End date cannot be before start date.'' \<in> set errors"
    using u bad(2,3) by (simp add: AssetCreateView_post_def Let_def)
  show "snd (AssetUpdateView_post e db req pk form) = db"
    using u bad(2) by (simp add: AssetUpdateView_post_def Let_def split: option.splits)
  show "fst (AssetUpdateView_post e db req pk form) = Http404
          \<or> (\<exists>inst errors. fst (AssetUpdateView_post e db req pk form)
                              = Render (asset_form_html (Some inst) errors)
               \<and> ''End date cannot be before start date.'' \<in> set errors)"
    using u bad(2,3) by (simp add: AssetUpdateView_post_def Let_def split: option.splits)
qed

lemma after_create_db_eq:
  "after_create_db =
     \<lparr>assets = [\<lparr>asset_pk = 1, owner = 1, name = ''Coins'', category = ''gold'',
                  asset_value = 120000, start_date = 738000, end_date = None,
                  latitude = None, longitude = None, other_fields = []\<rparr>],
      documents = [],
      activity_logs = [\<lparr>user = Some 1, action = ''create'', asset_name = ''Coins'',
                         asset_category = ''gold'',
                         details = Some ''Created asset with value 1200.00'',
                         ip_address = Some ''10.0.0.1''\<rparr>],
      next_asset_pk = 2, next_doc_pk = 1\<rparr>"
  by (simp add: after_create_db_def AssetCreateView_post_def AssetCreateView_form_valid_def
      is_valid_def AssetForm_errors_def AssetForm_clean_def form_save_def gold_form_def
      alice_request_def Asset_insert_def log_action_def empty_db_def example_env_def
      get_client_ip_def Let_def str_gold_value)

theorem C5_end_date_not_before_start_date_witness:
  "reachable example_env after_create_db
   \<and> list_all end_date_ok (assets after_create_db)
   \<and> req_user alice_request = Some 1
   \<and> form_start_date backdated_form = Value 738000
   \<and> form_end_date backdated_form = Value 737000
   \<and> (737000 :: int) < 738000
   \<and> AssetCreateView_post example_env after_create_db alice_request backdated_form
       = (Render (asset_form_html None [''End date cannot be before start date.'']),
          after_create_db)
   \<and> AssetUpdateView_post example_env after_create_db alice_request 1 backdated_form
       = (Render (asset_form_html
                   (Some \<lparr>asset_pk = 1, owner = 1, name = ''Coins'', category = ''gold'',
                          asset_value = 120000, start_date = 738000, end_date = None,
                          latitude = None, longitude = None, other_fields = []\<rparr>)
                   [''End date cannot be before start date.'']),
          after_create_db)"
proof -
  have r: "reachable example_env after_create_db"
    unfolding after_create_db_def by (rule reachable_create [OF reachable_empty])
  have inv: "list_all end_date_ok (assets after_create_db)"
    using r C5_end_date_not_before_start_date [where e = example_env and db = after_create_db]
    by blast
  have post:
    "AssetCreateView_post example_env after_create_db alice_request backdated_form
       = (Render (asset_form_html None [''End date cannot be before start date.'']),
          after_create_db)"
    by (simp add: AssetCreateView_post_def is_valid_def AssetForm_errors_def
        AssetForm_clean_def backdated_form_def alice_request_def Let_def)
  have edit:
    "AssetUpdateView_post example_env after_create_db alice_request 1 backdated_form
       = (Render (asset_form_html
                   (Some \<lparr>asset_pk = 1, owner = 1, name = ''Coins'', category = ''gold'',
                          asset_value = 120000, start_date = 738000, end_date = None,
                          latitude = None, longitude = None, other_fields = []\<rparr>)
                   [''End date cannot be before start date.'']),
          after_create_db)"
    unfolding after_create_db_eq
    by (simp add: AssetUpdateView_post_def is_valid_def AssetForm_errors_def
        AssetForm_clean_def backdated_form_def alice_request_def Let_def get_object_def
        owned_by_def)
  show ?thesis
    using r inv post edit
    by (simp add: alice_request_def backdated_form_def)
qed

subsection \<open>The views keep the database well-formed\<close>

text \<open>Unique primary keys and valid foreign keys, which the properties above assume of
  the database, hold in every database the views reach.\<close>

lemma wf_log_action: "wf_db (log_action db u act a dets ip) = wf_db db"
  by (simp add: wf_db_def log_action_def)

lemma wf_create_from_file:
  assumes "wf_db db" and "asset_pk a \<in> set (map asset_pk (assets db))"
  shows "wf_db (snd (create_from_file e db a f))"
  using assms
  by (auto simp: wf_db_def create_from_file_def AssetDocument_save_def Let_def list_all_iff
      less_Suc_eq)

lemma wf_create_documents:
  assumes "wf_db db" and "asset_pk obj \<in> set (map asset_pk (assets db))"
  shows "wf_db (create_documents e db obj files)"
  using assms
proof (induction files arbitrary: db)
  case Nil
  then show ?case by simp
next
  case (Cons f files)
  then show ?case
    using wf_create_from_file [of db obj e f]
    by (simp add: assets_create_from_file)
qed

lemma wf_upload_documents:
  assumes "wf_db db" and "asset_pk obj \<in> set (map asset_pk (assets db))"
  shows "wf_db (upload_documents e db req u obj files)"
  using assms
proof (induction files arbitrary: db)
  case Nil
  then show ?case by simp
next
  case (Cons f files)
  then show ?case
    using wf_create_from_file [of db obj e f]
    by (simp add: assets_create_from_file assets_log_action wf_log_action)
qed

lemma wf_Asset_insert:
  assumes "wf_db db"
  shows "wf_db (snd (Asset_insert db a))"
    and "asset_pk (fst (Asset_insert db a)) \<in> set (map asset_pk (assets (snd (Asset_insert db a))))"
  using assms
  by (auto simp: wf_db_def Asset_insert_def Let_def list_all_iff less_Suc_eq)

lemma wf_Asset_update:
  assumes "wf_db db" and "asset_pk obj \<in> set (map asset_pk (assets db))"
  shows "wf_db (Asset_update db obj)"
    and "asset_pk obj \<in> set (map asset_pk (assets (Asset_update db obj)))"
proof -
  have k: "asset_pk \<circ> (\<lambda>a. if asset_pk a = asset_pk obj then obj else a) = asset_pk"
    by (auto simp: fun_eq_iff)
  have k2: "(\<lambda>x. asset_pk (if asset_pk x = asset_pk obj then obj else x)) = asset_pk"
    by (auto simp: fun_eq_iff)
  have l: "list_all (\<lambda>a. asset_pk a < n)
             (map (\<lambda>a. if asset_pk a = asset_pk obj then obj else a) xs)
           = list_all (\<lambda>a. asset_pk a < n) xs" for xs n
    by (induction xs) auto
  show "wf_db (Asset_update db obj)"
    using assms(1) unfolding wf_db_def Asset_update_def by (simp add: k k2 l)
  show "asset_pk obj \<in> set (map asset_pk (assets (Asset_update db obj)))"
    using assms(2) unfolding Asset_update_def by (simp add: k k2)
qed

lemma wf_Asset_delete:
  assumes "wf_db db"
  shows "wf_db (Asset_delete db obj)"
  using assms
  by (auto simp: wf_db_def Asset_delete_def list_all_iff distinct_map_filter)

lemma wf_detail_get: "wf_db db \<Longrightarrow> wf_db (snd (AssetDetailView_get db req pk))"
  by (simp add: AssetDetailView_get_def wf_log_action split: option.splits)

lemma wf_create_post:
  assumes "wf_db db"
  shows "wf_db (snd (AssetCreateView_post e db req form))"
proof -
  have "wf_db (snd (AssetCreateView_form_valid e db req u form))" for u
  proof (cases "form_save 0 u form")
    case None
    then show ?thesis using assms by (simp add: AssetCreateView_form_valid_def)
  next
    case (Some inst)
    obtain obj db1 where i: "Asset_insert db inst = (obj, db1)"
      by (cases "Asset_insert db inst")
    with wf_Asset_insert [OF assms, of inst]
    have "wf_db db1" and "asset_pk obj \<in> set (map asset_pk (assets db1))" by simp_all
    then have "wf_db (create_documents e db1 obj (FILES req))"
      by (rule wf_create_documents)
    then show ?thesis
      using Some i by (simp add: AssetCreateView_form_valid_def wf_log_action)
  qed
  then show ?thesis
    using assms by (simp add: AssetCreateView_post_def Let_def split: option.splits)
qed

lemma wf_update_post:
  assumes "wf_db db"
  shows "wf_db (snd (AssetUpdateView_post e db req pk form))"
proof -
  have "wf_db (snd (AssetUpdateView_form_valid e db req u inst form))"
    if "inst \<in> set (assets db)" for u inst
  proof (cases "form_save (asset_pk inst) (owner inst) form")
    case None
    then show ?thesis using assms by (simp add: AssetUpdateView_form_valid_def)
  next
    case (Some obj)
    then have "asset_pk obj = asset_pk inst" using form_save_Some by blast
    then have "asset_pk obj \<in> set (map asset_pk (assets db))" using that by auto
    from wf_Asset_update [OF assms this]
    have "wf_db (upload_documents e (Asset_update db obj) req u obj (FILES req))"
      by (rule wf_upload_documents)
    then show ?thesis
      using Some by (simp add: AssetUpdateView_form_valid_def wf_log_action Let_def)
  qed
  note valid = this
  show ?thesis
  proof (cases "req_user req")
    case None
    then show ?thesis using assms by (simp add: AssetUpdateView_post_def)
  next
    case u: (Some u)
    show ?thesis
    proof (cases "get_object (owned_by db u) pk")
      case None
      then show ?thesis using assms u by (simp add: AssetUpdateView_post_def)
    next
      case (Some inst)
      then have "inst \<in> set (assets db)" using get_object_pk owned_by_set by blast
      from valid [OF this] show ?thesis
        using assms u Some by (simp add: AssetUpdateView_post_def Let_def)
    qed
  qed
qed

lemma wf_delete_post:
  assumes "wf_db db"
  shows "wf_db (snd (AssetDeleteView_post e db req pk))"
  using assms
  by (simp add: AssetDeleteView_post_def AssetDeleteView_form_valid_def AssetDeleteView_log_def
      wf_Asset_delete wf_log_action Let_def split: option.splits)

lemma wf_delete_document:
  assumes "wf_db db"
  shows "wf_db (snd (delete_document db req pk))"
proof -
  have "wf_db (db\<lparr>documents := filter P (documents db)\<rparr>)" for P
    using assms by (auto simp: wf_db_def list_all_iff distinct_map_filter)
  then show ?thesis
    using assms
    by (simp add: delete_document_def wf_log_action Let_def split: option.splits)
qed

lemma reachable_wf_db:
  assumes "reachable e db"
  shows "wf_db db"
  using assms
proof (induction rule: reachable.induct)
  case reachable_empty
  show ?case by (simp add: wf_db_def empty_db_def)
qed (simp_all add: wf_detail_get wf_create_post wf_update_post wf_delete_post
      wf_delete_document)

end
